theory Spec2Isabelle
  imports Main
begin

section \<open>The client facade of the o-ren prerenderer (src/index.ts)\<close>

text \<open>
  The module exports one function object, \<^verbatim>\<open>$oren\<close>, with the members
  \<^verbatim>\<open>options\<close>, \<^verbatim>\<open>ok\<close>, \<^verbatim>\<open>online\<close>, \<^verbatim>\<open>wait\<close>, \<^verbatim>\<open>onion\<close>, \<^verbatim>\<open>$api\<close> and \<^verbatim>\<open>$\<close>.
  The last one is the renderer's capability object \<^verbatim>\<open>window['oy@o/o-ren']\<close>, read once
  when the module is loaded; it is \<^verbatim>\<open>undefined\<close> outside the renderer.

  The embedding passes the mutable members of \<^verbatim>\<open>$oren\<close> around as a record, writes an
  absent JavaScript value (\<^verbatim>\<open>undefined\<close>, a missing property) as \<open>None\<close>, and a thrown
  exception as the left injection of a sum.
\<close>

subsection \<open>Data\<close>

text \<open>
  A value that \<^verbatim>\<open>JSON.stringify\<close> accepts (the values of \<^verbatim>\<open>Options.exports\<close>). Numbers
  are only stored by the facade, never computed with; they are integers here.
\<close>

datatype json =
    JNull
  | JBool bool
  | JNum int
  | JStr string
  | JArr "json list"
  | JObj "(string \<times> json) list"

text \<open>An entry of \<^verbatim>\<open>removeNodes\<close>: \<^verbatim>\<open>string | Element\<close>, an element by its identity.\<close>

datatype node = Selector string | Element nat

text \<open>
  \<^verbatim>\<open>interface Options\<close>: every member is optional. \<^verbatim>\<open>Partial<Options>\<close> is the same type.
\<close>

record Options =
  autoRedirect :: "int option"
  disabled :: "bool option"
  embedRuntimeStyles :: "bool option"
  embedStylesheets :: "int option"
  exports :: "(string \<rightharpoonup> json) option"
  httpEquiv :: "bool option"
  keepInjectedScripts :: "bool option"
  localStorage :: "bool option"
  preconnect :: "bool option"
  removeNodes :: "node list option"
  sessionStorage :: "bool option"
  status :: "int option"

text \<open>The object literal \<^verbatim>\<open>{}\<close> at type \<^verbatim>\<open>Options\<close>.\<close>

definition empty_Options :: Options where
  "empty_Options =
     \<lparr>autoRedirect = None, disabled = None, embedRuntimeStyles = None,
      embedStylesheets = None, exports = None, httpEquiv = None,
      keepInjectedScripts = None, localStorage = None, preconnect = None,
      removeNodes = None, sessionStorage = None, status = None\<rparr>"

text \<open>
  What a call can throw: the \<^verbatim>\<open>TypeError\<close> of calling a member that is not there,
  whatever a backend function throws, and the Escaper's error for a value with no JSON
  encoding.
\<close>

datatype error = TypeError | Thrown string | SerializationError

text \<open>
  \<^verbatim>\<open>interface WaitPromise\<close>. \<^verbatim>\<open>props\<close> is \<^verbatim>\<open>{'data-o-ren-wait': data}\<close> or \<^verbatim>\<open>{}\<close>: the list of
  its entries. \<^verbatim>\<open>resolve: () => void\<close> is a callback with effects only: it acts on the
  state \<open>'w\<close> outside the facade that a callback can reach, or throws.
\<close>

record 'w WaitPromise =
  data :: string
  props :: "(string \<times> string) list"
  resolve :: "'w \<Rightarrow> error + 'w"

record OnionAddr =
  domain :: string
  hostname :: string

text \<open>The parameter objects \<^verbatim>\<open>{prev, next}\<close> and \<^verbatim>\<open>{timeoutMs}\<close>.\<close>

record merge_params =
  prev :: Options
  "next" :: Options

record wait_params =
  timeoutMs :: int

text \<open>
  The first argument of every backend call is \<^verbatim>\<open>$oren\<close> itself. Its data members are
  \<^verbatim>\<open>options\<close> and \<^verbatim>\<open>$api\<close>; the rest are the functions below and the backend's own object.
\<close>

record oren_ref =
  ref_options :: Options
  ref_api :: string

text \<open>
  \<^verbatim>\<open>Window['oy@o/o-ren']\<close>. The declaration gives the object three members; a member is
  \<open>None\<close> when the object at run time does not have it. A member called returns or
  throws.
\<close>

record 'w backend =
  mergeOpts :: "(oren_ref \<Rightarrow> merge_params \<Rightarrow> error + Options) option"
  wait :: "(oren_ref \<Rightarrow> wait_params \<Rightarrow> error + 'w WaitPromise) option"
  onion :: "(oren_ref \<Rightarrow> error + OnionAddr option) option"

text \<open>The mutable members of \<^verbatim>\<open>$oren\<close>: \<^verbatim>\<open>options\<close>, \<^verbatim>\<open>$api\<close> and \<^verbatim>\<open>$\<close>.\<close>

record 'w oren_state =
  options :: Options
  api :: string
  dollar :: "'w backend option"

definition ref :: "'w oren_state \<Rightarrow> oren_ref" where
  "ref st = \<lparr>ref_options = options st, ref_api = api st\<rparr>"

text \<open>
  Module initialisation: \<^verbatim>\<open>$oren.options = {}\<close>, \<^verbatim>\<open>$oren.$api = '1.1'\<close>,
  \<^verbatim>\<open>$oren.$ = window['oy@o/o-ren']\<close>.
\<close>

definition init :: "'w backend option \<Rightarrow> 'w oren_state" where
  "init w = \<lparr>options = empty_Options, api = ''1.1'', dollar = w\<rparr>"

subsection \<open>Operations\<close>

text \<open>JavaScript's truthiness of an optional boolean: \<^verbatim>\<open>undefined\<close> and \<^verbatim>\<open>false\<close> are falsy.\<close>

fun truthy :: "bool option \<Rightarrow> bool" where
  "truthy None = False"
| "truthy (Some b) = b"

text \<open>\<^verbatim>\<open>$oren.online\<close>: \<^verbatim>\<open>!!$oren.$\<close>.\<close>

definition oren_online :: "'w oren_state \<Rightarrow> bool" where
  "oren_online st = (dollar st \<noteq> None)"

text \<open>\<^verbatim>\<open>$oren.ok\<close>: \<^verbatim>\<open>$oren.online() && !$oren.options.disabled\<close>.\<close>

definition oren_ok :: "'w oren_state \<Rightarrow> bool" where
  "oren_ok st = (oren_online st \<and> \<not> truthy (disabled (options st)))"

text \<open>
  \<^verbatim>\<open>$oren(opts)\<close>: returns \<^verbatim>\<open>opts\<close> when \<^verbatim>\<open>!$oren.ok() || !$oren.$\<close>; otherwise stores what
  \<^verbatim>\<open>$oren.$.mergeOpts($oren, {prev: $oren.options, next: opts})\<close> returns and returns it.
  The result is the returned value with the state after the call.
\<close>

definition oren :: "'w oren_state \<Rightarrow> Options \<Rightarrow> error + (Options \<times> 'w oren_state)" where
  "oren st opts =
     (if \<not> oren_ok st \<or> dollar st = None then Inr (opts, st)
      else case dollar st of
        None \<Rightarrow> Inr (opts, st)
      | Some b \<Rightarrow>
          (case mergeOpts b of
             None \<Rightarrow> Inl TypeError
           | Some f \<Rightarrow>
               (case f (ref st) \<lparr>prev = options st, next = opts\<rparr> of
                  Inl e \<Rightarrow> Inl e
                | Inr r \<Rightarrow> Inr (r, st\<lparr>options := r\<rparr>))))"

text \<open>The token of the offline branch: \<^verbatim>\<open>{data: '', props: {}, resolve: () => {}}\<close>.\<close>

definition inert :: "'w WaitPromise" where
  "inert = \<lparr>data = [], props = [], resolve = (\<lambda>w. Inr w)\<rparr>"

text \<open>
  \<^verbatim>\<open>$oren.wait(p = {timeoutMs: 5000})\<close>: the default applies when the argument is
  missing (\<open>None\<close>). \<^verbatim>\<open>$oren.ok() && $oren.$ ? $oren.$.wait($oren, p) : {...}\<close>.
\<close>

definition oren_wait :: "'w oren_state \<Rightarrow> wait_params option \<Rightarrow> error + 'w WaitPromise" where
  "oren_wait st arg =
     (let p = (case arg of None \<Rightarrow> \<lparr>timeoutMs = 5000\<rparr> | Some q \<Rightarrow> q) in
      if oren_ok st then
        (case dollar st of
           None \<Rightarrow> Inr inert
         | Some b \<Rightarrow>
             (case wait b of
                None \<Rightarrow> Inl TypeError
              | Some f \<Rightarrow> f (ref st) p))
      else Inr inert)"

text \<open>\<^verbatim>\<open>$oren.onion\<close>: \<^verbatim>\<open>$oren.$ && $oren.$.onion($oren)\<close>.\<close>

definition oren_onion :: "'w oren_state \<Rightarrow> error + OnionAddr option" where
  "oren_onion st =
     (case dollar st of
        None \<Rightarrow> Inr None
      | Some b \<Rightarrow>
          (case onion b of
             None \<Rightarrow> Inl TypeError
           | Some f \<Rightarrow> f (ref st)))"

text \<open>Calls of \<^verbatim>\<open>$oren\<close> one after the other, each on the state the one before left.\<close>

fun oren_all :: "'w oren_state \<Rightarrow> Options list \<Rightarrow> error + (Options list \<times> 'w oren_state)" where
  "oren_all st [] = Inr ([], st)"
| "oren_all st (opts # rest) =
     (case oren st opts of
        Inl e \<Rightarrow> Inl e
      | Inr (r, st') \<Rightarrow>
          (case oren_all st' rest of
             Inl e \<Rightarrow> Inl e
           | Inr (rs, st'') \<Rightarrow> Inr (r # rs, st'')))"

text \<open>A callback called \<open>n\<close> times in a row; a throw ends the run.\<close>

fun call_times :: "nat \<Rightarrow> ('w \<Rightarrow> error + 'w) \<Rightarrow> 'w \<Rightarrow> error + 'w" where
  "call_times 0 f w = Inr w"
| "call_times (Suc n) f w = (case f w of Inl e \<Rightarrow> Inl e | Inr w' \<Rightarrow> call_times n f w')"

subsection \<open>The merge and the escaping, which the renderer performs\<close>

text \<open>
  The repository has no merge of its own: \<^verbatim>\<open>$oren\<close> hands \<^verbatim>\<open>{prev, next}\<close> to the backend's
  \<^verbatim>\<open>mergeOpts\<close>, which is not among the sources. The three merge kinds of the
  ConfigMerger follow, each on one field: the previous value first, the partial's second.
\<close>

text \<open>
  Modelled from the spec: the scalar-replace and flag kind of section 4.2 (the merge is
  the backend's, not among the sources). A field present in the partial is the partial's
  value; a field absent from it is the previous one.
\<close>

fun replace_kind :: "'a option \<Rightarrow> 'a option \<Rightarrow> 'a option" where
  "replace_kind p None = p"
| "replace_kind p (Some v) = Some v"

text \<open>
  Modelled from the spec: the list-append kind of section 4.2 (the merge is the
  backend's, not among the sources). A field present in the partial is the previous list
  followed by the partial's; a previous list that is absent counts as empty.
\<close>

fun append_kind :: "'a list option \<Rightarrow> 'a list option \<Rightarrow> 'a list option" where
  "append_kind p None = p"
| "append_kind None (Some ys) = Some ys"
| "append_kind (Some xs) (Some ys) = Some (xs @ ys)"

text \<open>
  Modelled from the spec: the map-merge kind of section 4.2 (the merge is the backend's,
  not among the sources). A field present in the partial is the previous map with the
  partial's laid over it; a previous map that is absent counts as empty.
\<close>

fun merge_kind :: "('k \<rightharpoonup> 'v) option \<Rightarrow> ('k \<rightharpoonup> 'v) option \<Rightarrow> ('k \<rightharpoonup> 'v) option" where
  "merge_kind p None = p"
| "merge_kind None (Some n) = Some n"
| "merge_kind (Some m) (Some n) = Some (m ++ n)"

text \<open>
  Modelled from the spec: \<^verbatim>\<open>merge(previous, partial)\<close> of section 4.2, each field by its
  kind (section 3: the node-removal selectors are the list, the exported globals the map,
  every other option a scalar or a flag). The code of the merge is the backend's and is
  not among the sources.
\<close>

definition merge :: "Options \<Rightarrow> Options \<Rightarrow> Options" where
  "merge P N =
     \<lparr>autoRedirect = replace_kind (autoRedirect P) (autoRedirect N),
      disabled = replace_kind (disabled P) (disabled N),
      embedRuntimeStyles = replace_kind (embedRuntimeStyles P) (embedRuntimeStyles N),
      embedStylesheets = replace_kind (embedStylesheets P) (embedStylesheets N),
      exports = merge_kind (exports P) (exports N),
      httpEquiv = replace_kind (httpEquiv P) (httpEquiv N),
      keepInjectedScripts = replace_kind (keepInjectedScripts P) (keepInjectedScripts N),
      localStorage = replace_kind (localStorage P) (localStorage N),
      preconnect = replace_kind (preconnect P) (preconnect N),
      removeNodes = append_kind (removeNodes P) (removeNodes N),
      sessionStorage = replace_kind (sessionStorage P) (sessionStorage N),
      status = replace_kind (status P) (status N)\<rparr>"

text \<open>
  Modelled from the spec: a backend \<^verbatim>\<open>mergeOpts\<close> that performs the ConfigMerger's merge on
  \<^verbatim>\<open>{prev, next}\<close> (section 2: the backend may perform the canonical merge). The backend's
  own code is not among the sources.
\<close>

definition spec_mergeOpts :: "oren_ref \<Rightarrow> merge_params \<Rightarrow> error + Options" where
  "spec_mergeOpts r p = Inr (merge (prev p) (next p))"

text \<open>The backslash character, which starts an escape of JSON.\<close>

definition backslash :: char where
  "backslash = CHR 0x5C"

text \<open>
  Modelled from the spec: the Escaper's substitution (section 4.1), which the sources
  only describe, in the comment on \<^verbatim>\<open>Options.exports\<close>. Each of the three characters of
  the JSON text becomes its six-character escape, every other character stays.
\<close>

fun escape :: "string \<Rightarrow> string" where
  "escape [] = []"
| "escape (c # cs) =
     (if c = CHR ''&'' then backslash # ''u0026'' @ escape cs
      else if c = CHR ''<'' then backslash # ''u003c'' @ escape cs
      else if c = CHR ''>'' then backslash # ''u003e'' @ escape cs
      else c # escape cs)"

text \<open>
  Modelled from the spec: \<^verbatim>\<open>Escaper.encode\<close> of section 4.1, which is not among the
  sources. The JSON encoder is the platform's and a parameter here: \<open>stringify v\<close> is the JSON text of \<open>v\<close>, or \<open>None\<close> for a value with no
  JSON encoding, which fails with the \<^verbatim>\<open>SerializationError\<close>.
\<close>

definition Escaper_encode :: "('v \<Rightarrow> string option) \<Rightarrow> 'v \<Rightarrow> error + string" where
  "Escaper_encode stringify v =
     (case stringify v of
        None \<Rightarrow> Inl SerializationError
      | Some s \<Rightarrow> Inr (escape s))"

subsection \<open>Capability objects to run the operations on\<close>

text \<open>The object \<^verbatim>\<open>{}\<close>: present, with none of the three members.\<close>

definition bare_backend :: "'w backend" where
  "bare_backend = \<lparr>mergeOpts = None, wait = None, onion = None\<rparr>"

text \<open>
  A renderer with all three members: it merges as the ConfigMerger does, issues a token
  whose marker tells the hint it was given, and knows the page's onion address.
\<close>

definition demo_wait :: "oren_ref \<Rightarrow> wait_params \<Rightarrow> error + 'w WaitPromise" where
  "demo_wait r p =
     (let m = (if timeoutMs p = 5000 then ''w5000'' else ''w'') in
      Inr \<lparr>data = m, props = [(''data-o-ren-wait'', m)], resolve = (\<lambda>w. Inr w)\<rparr>)"

definition demo_addr :: OnionAddr where
  "demo_addr = \<lparr>domain = ''t0r.onion'', hostname = ''api.t0r.onion''\<rparr>"

definition demo_onion :: "oren_ref \<Rightarrow> error + OnionAddr option" where
  "demo_onion r = Inr (Some demo_addr)"

definition demo_backend :: "'w backend" where
  "demo_backend =
     \<lparr>mergeOpts = Some spec_mergeOpts, wait = Some demo_wait, onion = Some demo_onion\<rparr>"

text \<open>The facade in a renderer that is present, after \<^verbatim>\<open>disabled: true\<close> has been stored.\<close>

definition disabled_demo :: "'w oren_state" where
  "disabled_demo =
     \<lparr>options = empty_Options\<lparr>disabled := Some True\<rparr>, api = ''1.1'',
      dollar = Some demo_backend\<rparr>"

text \<open>
  A configuration and a partial to merge: they share a selector of the list and the key
  \<^verbatim>\<open>b\<close> of the map.
\<close>

definition demo_prev :: Options where
  "demo_prev =
     empty_Options\<lparr>status := Some 200, preconnect := Some True,
       removeNodes := Some [Selector ''script''],
       exports := Some [''a'' \<mapsto> JNum 1, ''b'' \<mapsto> JNum 2]\<rparr>"

definition demo_next :: Options where
  "demo_next =
     empty_Options\<lparr>status := Some 404,
       removeNodes := Some [Selector ''script'', Selector ''style''],
       exports := Some [''b'' \<mapsto> JNum 3, ''c'' \<mapsto> JStr ''x'']\<rparr>"

definition demo_state :: "'w oren_state" where
  "demo_state = \<lparr>options = demo_prev, api = ''1.1'', dollar = Some demo_backend\<rparr>"

text \<open>
  The value \<^verbatim>\<open>{a: "<b>&c"}\<close> and a JSON encoder that knows its text, \<^verbatim>\<open>{"a":"<b>&c"}\<close>.
\<close>

definition dquote :: char where
  "dquote = CHR 0x22"

definition demo_value :: json where
  "demo_value = JObj [(''a'', JStr ''<b>&c'')]"

definition demo_stringify :: "json \<Rightarrow> string option" where
  "demo_stringify v =
     (if v = demo_value
      then Some (''{'' @ dquote # ''a'' @ dquote # '':'' @ dquote # ''<b>&c'' @ dquote # ''}'')
      else None)"

section \<open>Availability\<close>

lemma oren_ok_iff: "oren_ok st \<longleftrightarrow> dollar st \<noteq> None \<and> disabled (options st) \<noteq> Some True"
  by (cases "disabled (options st)") (auto simp: oren_ok_def oren_online_def)

lemma oren_degraded: "\<not> oren_ok st \<Longrightarrow> oren st opts = Inr (opts, st)"
  by (simp add: oren_def)

lemma oren_wait_degraded: "\<not> oren_ok st \<Longrightarrow> oren_wait st arg = Inr inert"
  by (simp add: oren_wait_def)

lemma oren_delegates:
  assumes "oren_ok st" and "dollar st = Some b" and "mergeOpts b = Some f"
  shows "oren st opts =
    (case f (ref st) \<lparr>prev = options st, next = opts\<rparr> of
       Inl e \<Rightarrow> Inl e
     | Inr r \<Rightarrow> Inr (r, st\<lparr>options := r\<rparr>))"
  using assms by (simp add: oren_def)

section \<open>Properties of the facade\<close>

text \<open>
  C5. When the facade is unavailable (the capability object is absent, or the stored
  \<^verbatim>\<open>disabled\<close> flag is set), \<^verbatim>\<open>$oren(opts)\<close> returns \<^verbatim>\<open>opts\<close> itself and \<^verbatim>\<open>$oren.options\<close>
  (the whole state) is after the call what it was before, for every \<^verbatim>\<open>opts\<close>.
\<close>

theorem configure_unavailable_echo:
  assumes "dollar st = None \<or> disabled (options st) = Some True"
  shows "\<not> oren_ok st \<and> oren st opts = Inr (opts, st)"
proof -
  from assms have "\<not> oren_ok st"
    by (simp add: oren_ok_iff)
  then show ?thesis
    by (simp add: oren_degraded)
qed

theorem configure_unavailable_echo_witness:
  "oren (init None :: nat oren_state) (empty_Options\<lparr>status := Some 404\<rparr>)
     = Inr (empty_Options\<lparr>status := Some 404\<rparr>, init None)
   \<and> oren \<lparr>options = empty_Options\<lparr>disabled := Some True\<rparr>, api = ''1.1'',
            dollar = Some (demo_backend :: nat backend)\<rparr>
          (empty_Options\<lparr>status := Some 404\<rparr>)
     = Inr (empty_Options\<lparr>status := Some 404\<rparr>,
            \<lparr>options = empty_Options\<lparr>disabled := Some True\<rparr>, api = ''1.1'',
             dollar = Some demo_backend\<rparr>)"
proof -
  have a: "dollar (init None :: nat oren_state) = None
      \<or> disabled (options (init None :: nat oren_state)) = Some True"
    by (simp add: init_def)
  have b: "dollar \<lparr>options = empty_Options\<lparr>disabled := Some True\<rparr>, api = ''1.1'',
            dollar = Some (demo_backend :: nat backend)\<rparr> = None
      \<or> disabled (options \<lparr>options = empty_Options\<lparr>disabled := Some True\<rparr>, api = ''1.1'',
            dollar = Some (demo_backend :: nat backend)\<rparr>) = Some True"
    by simp
  show ?thesis
    using configure_unavailable_echo [OF a] configure_unavailable_echo [OF b] by simp
qed

text \<open>
  C6. Whenever the facade is unavailable, \<^verbatim>\<open>$oren.wait\<close> returns (it does not throw) a
  token whose \<^verbatim>\<open>data\<close> is the empty string and whose \<^verbatim>\<open>props\<close> is the empty object; its
  \<^verbatim>\<open>resolve\<close>, called any number of times in a row on any state, never throws and leaves
  the state as it was.
\<close>

theorem wait_unavailable_inert:
  assumes "\<not> oren_ok st"
  shows "\<exists>tok. oren_wait st arg = Inr tok \<and> data tok = [] \<and> props tok = []
           \<and> (\<forall>n w. call_times n (resolve tok) w = Inr w)"
proof -
  have "call_times n (resolve inert) w = Inr w" for n and w :: 'a
    by (induction n) (simp_all add: inert_def)
  moreover have "oren_wait st arg = Inr inert"
    using assms by (rule oren_wait_degraded)
  ultimately show ?thesis
    by (simp add: inert_def)
qed

theorem wait_unavailable_inert_witness:
  "\<not> oren_ok (init None :: nat oren_state)
   \<and> (\<exists>tok. oren_wait (init None :: nat oren_state) None = Inr tok
         \<and> data tok = [] \<and> props tok = []
         \<and> call_times 3 (resolve tok) (7::nat) = Inr 7)"
proof -
  have a: "\<not> oren_ok (init None :: nat oren_state)"
    by (simp add: oren_ok_iff init_def)
  from wait_unavailable_inert [OF a, of None] obtain tok
    where "oren_wait (init None :: nat oren_state) None = Inr tok"
      and "data tok = []" and "props tok = []"
      and "\<forall>n w. call_times n (resolve tok) w = Inr w"
    by blast
  with a show ?thesis by blast
qed

text \<open>
  C9. When \<^verbatim>\<open>$oren.wait\<close> is called with no argument while the facade is available, the
  call is the backend's \<^verbatim>\<open>wait\<close> applied to \<^verbatim>\<open>$oren\<close> and the parameter object
  \<^verbatim>\<open>{timeoutMs: 5000}\<close>, whatever function the backend's \<^verbatim>\<open>wait\<close> is.
\<close>

theorem wait_default_timeout:
  assumes "oren_ok st" and "dollar st = Some b" and "wait b = Some f"
  shows "oren_wait st None = f (ref st) \<lparr>timeoutMs = 5000\<rparr>"
  using assms by (simp add: oren_wait_def)

theorem wait_default_timeout_witness:
  "oren_ok (init (Some demo_backend) :: nat oren_state)
   \<and> wait (demo_backend :: nat backend) = Some demo_wait
   \<and> oren_wait (init (Some demo_backend) :: nat oren_state) None
       = demo_wait \<lparr>ref_options = empty_Options, ref_api = ''1.1''\<rparr> \<lparr>timeoutMs = 5000\<rparr>
   \<and> map_sum id data (oren_wait (init (Some demo_backend) :: nat oren_state) None)
       = Inr ''w5000''"
proof -
  have a: "oren_ok (init (Some demo_backend) :: nat oren_state)"
    by (simp add: oren_ok_iff init_def empty_Options_def)
  have b: "dollar (init (Some demo_backend) :: nat oren_state) = Some demo_backend"
    by (simp add: init_def)
  have c: "wait (demo_backend :: nat backend) = Some demo_wait"
    by (simp add: demo_backend_def)
  have r: "ref (init (Some demo_backend) :: nat oren_state)
      = \<lparr>ref_options = empty_Options, ref_api = ''1.1''\<rparr>"
    by (simp add: ref_def init_def)
  show ?thesis
    using a c wait_default_timeout [OF a b c] by (simp add: r demo_wait_def Let_def)
qed

text \<open>
  C10. When the module has been loaded, \<^verbatim>\<open>$oren.options\<close> is the empty object: no option
  is set, \<^verbatim>\<open>disabled\<close> neither. In that state, the one every call sees until a call of
  \<^verbatim>\<open>$oren\<close> has stored a merge, \<^verbatim>\<open>$oren.ok()\<close> is true exactly when the capability object is
  present.
\<close>

theorem init_options_empty:
  "options (init c) = empty_Options
   \<and> disabled (options (init c)) = None
   \<and> oren_ok (init c) = (c \<noteq> None)"
  by (simp add: init_def empty_Options_def oren_ok_iff)

theorem init_options_empty_witness:
  "\<not> oren_ok (init None :: nat oren_state)
   \<and> oren_ok (init (Some demo_backend) :: nat oren_state)
   \<and> options (init (Some demo_backend) :: nat oren_state) = empty_Options"
  using init_options_empty [of "None :: nat backend option"]
    init_options_empty [of "Some (demo_backend :: nat backend)"]
  by simp

text \<open>
  C1, as the claim states it, fails for \<^verbatim>\<open>$oren.onion\<close>: with the capability object present
  and the stored \<^verbatim>\<open>disabled\<close> flag set, availability is false, and \<^verbatim>\<open>$oren.onion\<close> still
  calls the backend and returns its address.
\<close>

theorem onion_ignores_disabled_counterexample:
  "dollar (disabled_demo :: nat oren_state) \<noteq> None
   \<and> disabled (options (disabled_demo :: nat oren_state)) = Some True
   \<and> \<not> oren_ok (disabled_demo :: nat oren_state)
   \<and> oren_onion (disabled_demo :: nat oren_state) = Inr (Some demo_addr)
   \<and> oren_onion (disabled_demo :: nat oren_state) \<noteq> Inr None"
  by (simp add: disabled_demo_def oren_ok_iff oren_onion_def demo_backend_def
      demo_onion_def)

text \<open>
  C1, amended. Availability is: the capability object is present and the stored
  \<^verbatim>\<open>disabled\<close> is not truthy. \<^verbatim>\<open>$oren\<close> and \<^verbatim>\<open>$oren.wait\<close> take their degraded branch (the
  argument returned with the state unchanged, the inert token) whenever availability is
  false. \<^verbatim>\<open>$oren.onion\<close> looks at the presence of the capability object only: it returns
  the absent value when the object is absent, and the result of the backend's
  \<^verbatim>\<open>onion($oren)\<close> when it is present, whatever \<^verbatim>\<open>disabled\<close> is.
\<close>

theorem availability_gating:
  "oren_ok st = (dollar st \<noteq> None \<and> \<not> truthy (disabled (options st)))
   \<and> (\<not> oren_ok st \<longrightarrow> oren st opts = Inr (opts, st))
   \<and> (\<not> oren_ok st \<longrightarrow> oren_wait st arg = Inr inert)
   \<and> (dollar st = None \<longrightarrow> oren_onion st = Inr None)
   \<and> (\<forall>b f. dollar st = Some b \<and> onion b = Some f \<longrightarrow> oren_onion st = f (ref st))"
proof -
  have "oren_ok st = (dollar st \<noteq> None \<and> \<not> truthy (disabled (options st)))"
    by (simp add: oren_ok_def oren_online_def)
  moreover have "\<not> oren_ok st \<longrightarrow> oren st opts = Inr (opts, st)"
    by (simp add: oren_degraded)
  moreover have "\<not> oren_ok st \<longrightarrow> oren_wait st arg = Inr inert"
    by (simp add: oren_wait_degraded)
  moreover have "dollar st = None \<longrightarrow> oren_onion st = Inr None"
    by (simp add: oren_onion_def)
  moreover have "\<forall>b f. dollar st = Some b \<and> onion b = Some f \<longrightarrow> oren_onion st = f (ref st)"
    by (simp add: oren_onion_def)
  ultimately show ?thesis
    by blast
qed

theorem availability_gating_witness:
  "\<not> oren_ok (disabled_demo :: nat oren_state)
   \<and> oren (disabled_demo :: nat oren_state) (empty_Options\<lparr>status := Some 404\<rparr>)
       = Inr (empty_Options\<lparr>status := Some 404\<rparr>, disabled_demo)
   \<and> oren_wait (disabled_demo :: nat oren_state) None = Inr inert
   \<and> oren_onion (init None :: nat oren_state) = Inr None
   \<and> oren_onion (disabled_demo :: nat oren_state)
       = demo_onion (ref (disabled_demo :: nat oren_state))"
proof -
  have a: "\<not> oren_ok (disabled_demo :: nat oren_state)"
    by (simp add: disabled_demo_def oren_ok_iff)
  have b: "dollar (init None :: nat oren_state) = None"
    by (simp add: init_def)
  have c: "dollar (disabled_demo :: nat oren_state) = Some demo_backend
      \<and> onion (demo_backend :: nat backend) = Some demo_onion"
    by (simp add: disabled_demo_def demo_backend_def)
  show ?thesis
    using a b c
      availability_gating [of "disabled_demo :: nat oren_state"
        "empty_Options\<lparr>status := Some 404\<rparr>" None]
      availability_gating [of "init None :: nat oren_state" empty_Options None]
    by blast
qed

text \<open>
  C2, as the claim states it, fails for a capability object that is present and lacks
  its members: on the object \<^verbatim>\<open>{}\<close>, freshly loaded, each of the three operations calls a
  member that is not there, which throws a \<^verbatim>\<open>TypeError\<close>.
\<close>

theorem missing_member_throws_counterexample:
  "dollar (init (Some bare_backend) :: nat oren_state) \<noteq> None
   \<and> mergeOpts (bare_backend :: nat backend) = None
   \<and> wait (bare_backend :: nat backend) = None
   \<and> onion (bare_backend :: nat backend) = None
   \<and> oren (init (Some bare_backend) :: nat oren_state) (empty_Options\<lparr>status := Some 404\<rparr>)
       = Inl TypeError
   \<and> oren_wait (init (Some bare_backend) :: nat oren_state) None = Inl TypeError
   \<and> oren_onion (init (Some bare_backend) :: nat oren_state) = Inl TypeError"
  by (simp add: init_def bare_backend_def oren_def oren_wait_def oren_onion_def
      oren_ok_iff empty_Options_def)

text \<open>
  C2, amended. If the capability object is absent, every facade operation returns its
  offline result on every input and does not throw: \<^verbatim>\<open>$oren\<close> its argument, with the state
  unchanged, \<^verbatim>\<open>$oren.wait\<close> the inert token, \<^verbatim>\<open>$oren.onion\<close> the absent value. (An object that
  is present has the three members by its declared type.)
\<close>

theorem absent_capability_offline:
  assumes "dollar st = None"
  shows "oren st opts = Inr (opts, st)
    \<and> oren_wait st arg = Inr inert
    \<and> oren_onion st = Inr None"
proof -
  from assms have "\<not> oren_ok st"
    by (simp add: oren_ok_iff)
  then have "oren st opts = Inr (opts, st)" and "oren_wait st arg = Inr inert"
    by (simp_all add: oren_degraded oren_wait_degraded)
  moreover from assms have "oren_onion st = Inr None"
    by (simp add: oren_onion_def)
  ultimately show ?thesis
    by simp
qed

theorem absent_capability_offline_witness:
  "dollar (init None :: nat oren_state) = None
   \<and> oren (init None :: nat oren_state) (empty_Options\<lparr>status := Some 404\<rparr>)
       = Inr (empty_Options\<lparr>status := Some 404\<rparr>, init None)
   \<and> oren_wait (init None :: nat oren_state) (Some \<lparr>timeoutMs = 100\<rparr>) = Inr inert
   \<and> oren_onion (init None :: nat oren_state) = Inr None"
proof -
  have a: "dollar (init None :: nat oren_state) = None"
    by (simp add: init_def)
  show ?thesis
    using a absent_capability_offline [OF a] by simp
qed

section \<open>The merge\<close>

lemma merge_kind_lookup:
  "merge_kind p q =
     (case q of
        None \<Rightarrow> p
      | Some n \<Rightarrow>
          Some (\<lambda>k. case n k of
                  Some v \<Rightarrow> Some v
                | None \<Rightarrow> (case p of None \<Rightarrow> None | Some m \<Rightarrow> m k)))"
proof (cases q)
  case None
  then show ?thesis by simp
next
  case (Some n)
  have "merge_kind p (Some n) =
      Some (\<lambda>k. case n k of
              Some v \<Rightarrow> Some v
            | None \<Rightarrow> (case p of None \<Rightarrow> None | Some m \<Rightarrow> m k))"
    by (cases p) (auto simp: fun_eq_iff map_add_def split: option.split)
  with Some show ?thesis by simp
qed

lemma append_kind_concat:
  "append_kind p q =
     (case q of
        None \<Rightarrow> p
      | Some ys \<Rightarrow> Some ((case p of None \<Rightarrow> [] | Some xs \<Rightarrow> xs) @ ys))"
  by (cases q; cases p) simp_all

lemma replace_kind_overwrite:
  "replace_kind p q = (case q of None \<Rightarrow> p | Some v \<Rightarrow> Some v)"
  by (cases q) simp_all

lemma merge_empty: "merge P empty_Options = P"
  by (simp add: merge_def empty_Options_def)

lemma oren_spec_backend:
  assumes "oren_ok st" and "dollar st = Some b" and "mergeOpts b = Some spec_mergeOpts"
  shows "oren st N = Inr (merge (options st) N, st\<lparr>options := merge (options st) N\<rparr>)"
  using oren_delegates [OF assms, of N] by (simp add: spec_mergeOpts_def)

text \<open>
  C3. When the facade is available and the backend merges as the ConfigMerger does,
  \<^verbatim>\<open>$oren(N)\<close> stores \<open>merge P N\<close> in place of the canonical configuration \<open>P\<close> and returns
  it. In \<open>merge P N\<close>, a scalar or flag field present in \<open>N\<close> is \<open>N\<close>'s value; the list field
  present in \<open>N\<close> is \<open>P\<close>'s list followed by \<open>N\<close>'s, in order, duplicates kept; the map field
  present in \<open>N\<close> has \<open>N\<close>'s value at every key of \<open>N\<close> and \<open>P\<close>'s value at every other key; a
  field absent from \<open>N\<close> is \<open>P\<close>'s.
\<close>

theorem configure_merges:
  assumes "oren_ok st" and "dollar st = Some b" and "mergeOpts b = Some spec_mergeOpts"
    and "P = options st"
  shows "oren st N = Inr (merge P N, st\<lparr>options := merge P N\<rparr>)
    \<and> autoRedirect (merge P N) = (case autoRedirect N of None \<Rightarrow> autoRedirect P | Some v \<Rightarrow> Some v)
    \<and> disabled (merge P N) = (case disabled N of None \<Rightarrow> disabled P | Some v \<Rightarrow> Some v)
    \<and> embedRuntimeStyles (merge P N)
        = (case embedRuntimeStyles N of None \<Rightarrow> embedRuntimeStyles P | Some v \<Rightarrow> Some v)
    \<and> embedStylesheets (merge P N)
        = (case embedStylesheets N of None \<Rightarrow> embedStylesheets P | Some v \<Rightarrow> Some v)
    \<and> httpEquiv (merge P N) = (case httpEquiv N of None \<Rightarrow> httpEquiv P | Some v \<Rightarrow> Some v)
    \<and> keepInjectedScripts (merge P N)
        = (case keepInjectedScripts N of None \<Rightarrow> keepInjectedScripts P | Some v \<Rightarrow> Some v)
    \<and> localStorage (merge P N) = (case localStorage N of None \<Rightarrow> localStorage P | Some v \<Rightarrow> Some v)
    \<and> preconnect (merge P N) = (case preconnect N of None \<Rightarrow> preconnect P | Some v \<Rightarrow> Some v)
    \<and> sessionStorage (merge P N)
        = (case sessionStorage N of None \<Rightarrow> sessionStorage P | Some v \<Rightarrow> Some v)
    \<and> status (merge P N) = (case status N of None \<Rightarrow> status P | Some v \<Rightarrow> Some v)
    \<and> removeNodes (merge P N)
        = (case removeNodes N of
             None \<Rightarrow> removeNodes P
           | Some ys \<Rightarrow> Some ((case removeNodes P of None \<Rightarrow> [] | Some xs \<Rightarrow> xs) @ ys))
    \<and> exports (merge P N)
        = (case exports N of
             None \<Rightarrow> exports P
           | Some n \<Rightarrow>
               Some (\<lambda>k. case n k of
                       Some v \<Rightarrow> Some v
                     | None \<Rightarrow> (case exports P of None \<Rightarrow> None | Some m \<Rightarrow> m k)))"
proof -
  have call: "oren st N = Inr (merge P N, st\<lparr>options := merge P N\<rparr>)"
    using oren_spec_backend [OF assms(1-3), of N] assms(4) by simp
  have scalars:
    "autoRedirect (merge P N) = (case autoRedirect N of None \<Rightarrow> autoRedirect P | Some v \<Rightarrow> Some v)"
    "disabled (merge P N) = (case disabled N of None \<Rightarrow> disabled P | Some v \<Rightarrow> Some v)"
    "embedRuntimeStyles (merge P N)
        = (case embedRuntimeStyles N of None \<Rightarrow> embedRuntimeStyles P | Some v \<Rightarrow> Some v)"
    "embedStylesheets (merge P N)
        = (case embedStylesheets N of None \<Rightarrow> embedStylesheets P | Some v \<Rightarrow> Some v)"
    "httpEquiv (merge P N) = (case httpEquiv N of None \<Rightarrow> httpEquiv P | Some v \<Rightarrow> Some v)"
    "keepInjectedScripts (merge P N)
        = (case keepInjectedScripts N of None \<Rightarrow> keepInjectedScripts P | Some v \<Rightarrow> Some v)"
    "localStorage (merge P N) = (case localStorage N of None \<Rightarrow> localStorage P | Some v \<Rightarrow> Some v)"
    "preconnect (merge P N) = (case preconnect N of None \<Rightarrow> preconnect P | Some v \<Rightarrow> Some v)"
    "sessionStorage (merge P N)
        = (case sessionStorage N of None \<Rightarrow> sessionStorage P | Some v \<Rightarrow> Some v)"
    "status (merge P N) = (case status N of None \<Rightarrow> status P | Some v \<Rightarrow> Some v)"
    by (simp_all add: merge_def replace_kind_overwrite)
  have list: "removeNodes (merge P N)
        = (case removeNodes N of
             None \<Rightarrow> removeNodes P
           | Some ys \<Rightarrow> Some ((case removeNodes P of None \<Rightarrow> [] | Some xs \<Rightarrow> xs) @ ys))"
    by (simp add: merge_def append_kind_concat)
  have map: "exports (merge P N)
        = (case exports N of
             None \<Rightarrow> exports P
           | Some n \<Rightarrow>
               Some (\<lambda>k. case n k of
                       Some v \<Rightarrow> Some v
                     | None \<Rightarrow> (case exports P of None \<Rightarrow> None | Some m \<Rightarrow> m k)))"
    by (simp add: merge_def merge_kind_lookup)
  from call scalars list map show ?thesis
    by (intro conjI)
qed

theorem configure_merges_witness:
  "oren_ok (demo_state :: nat oren_state)
   \<and> oren (demo_state :: nat oren_state) demo_next
       = Inr (merge demo_prev demo_next, demo_state\<lparr>options := merge demo_prev demo_next\<rparr>)
   \<and> status (merge demo_prev demo_next) = Some 404
   \<and> preconnect (merge demo_prev demo_next) = Some True
   \<and> disabled (merge demo_prev demo_next) = None
   \<and> removeNodes (merge demo_prev demo_next)
       = Some [Selector ''script'', Selector ''script'', Selector ''style'']
   \<and> map_option (\<lambda>m. map m [''a'', ''b'', ''c'', ''d'']) (exports (merge demo_prev demo_next))
       = Some [Some (JNum 1), Some (JNum 3), Some (JStr ''x''), None]"
proof -
  have a: "oren_ok (demo_state :: nat oren_state)"
    by (simp add: demo_state_def demo_prev_def empty_Options_def oren_ok_iff)
  have b: "dollar (demo_state :: nat oren_state) = Some demo_backend"
    by (simp add: demo_state_def)
  have c: "mergeOpts (demo_backend :: nat backend) = Some spec_mergeOpts"
    by (simp add: demo_backend_def)
  have d: "demo_prev = options (demo_state :: nat oren_state)"
    by (simp add: demo_state_def)
  show ?thesis
    using a configure_merges [OF a b c d, of demo_next]
    by (simp add: demo_prev_def demo_next_def empty_Options_def)
qed

text \<open>
  C8. Merging the empty partial into \<open>merge P N\<close> gives \<open>merge P N\<close> again. Through the
  facade: whether the capability object is absent or is a backend that merges as the
  ConfigMerger does, \<^verbatim>\<open>$oren({})\<close> leaves the state, the canonical configuration with it,
  as it was; it returns the configuration when available and its argument otherwise.
\<close>

theorem merge_empty_partial_noop:
  assumes "dollar st = None \<or> (\<exists>b. dollar st = Some b \<and> mergeOpts b = Some spec_mergeOpts)"
  shows "merge (merge P N) empty_Options = merge P N
    \<and> oren st empty_Options = Inr (if oren_ok st then options st else empty_Options, st)"
proof (cases "oren_ok st")
  case False
  then show ?thesis
    by (simp add: merge_empty oren_degraded)
next
  case True
  then have "dollar st \<noteq> None"
    by (simp add: oren_ok_iff)
  with assms obtain b where "dollar st = Some b" and "mergeOpts b = Some spec_mergeOpts"
    by blast
  from oren_spec_backend [OF True this, of empty_Options]
  have "oren st empty_Options = Inr (options st, st)"
    by (simp add: merge_empty)
  with True show ?thesis
    by (simp add: merge_empty)
qed

theorem merge_empty_partial_noop_witness:
  "merge (merge demo_prev demo_next) empty_Options = merge demo_prev demo_next
   \<and> oren (demo_state :: nat oren_state) empty_Options = Inr (demo_prev, demo_state)
   \<and> oren (init None :: nat oren_state) empty_Options = Inr (empty_Options, init None)"
proof -
  have a: "dollar (demo_state :: nat oren_state) = None
      \<or> (\<exists>b. dollar (demo_state :: nat oren_state) = Some b
            \<and> mergeOpts b = Some spec_mergeOpts)"
    by (simp add: demo_state_def demo_backend_def)
  have b: "dollar (init None :: nat oren_state) = None
      \<or> (\<exists>b. dollar (init None :: nat oren_state) = Some b
            \<and> mergeOpts b = Some spec_mergeOpts)"
    by (simp add: init_def)
  have ok: "oren_ok (demo_state :: nat oren_state)"
    by (simp add: demo_state_def demo_prev_def empty_Options_def oren_ok_iff)
  have off: "\<not> oren_ok (init None :: nat oren_state)"
    by (simp add: init_def oren_ok_iff)
  have p: "options (demo_state :: nat oren_state) = demo_prev"
    by (simp add: demo_state_def)
  show ?thesis
    using merge_empty_partial_noop [OF a, of demo_prev demo_next]
      merge_empty_partial_noop [OF b, of demo_prev demo_next]
    by (simp add: ok off p)
qed

section \<open>The disabled flag\<close>

lemma oren_all_degraded: "\<not> oren_ok st \<Longrightarrow> oren_all st Ns = Inr (Ns, st)"
  by (induction Ns) (simp_all add: oren_degraded)

text \<open>
  C7. Let the capability object be present and let \<^verbatim>\<open>$oren({disabled: true})\<close>, evaluated as
  available, return with \<^verbatim>\<open>disabled\<close> set in the stored configuration. The call has
  stored what it returns and changed nothing else. In the state it leaves, availability
  is false, and every later call of \<^verbatim>\<open>$oren\<close>, alone or in a row of calls, returns its own
  argument and leaves the stored configuration, \<^verbatim>\<open>disabled: true\<close> included, as it is.
\<close>

theorem disabled_takes_hold:
  assumes "dollar st \<noteq> None" and "oren_ok st"
    and "oren st (empty_Options\<lparr>disabled := Some True\<rparr>) = Inr (r, st1)"
    and "disabled (options st1) = Some True"
  shows "st1 = st\<lparr>options := r\<rparr>
    \<and> \<not> oren_ok st1
    \<and> oren st1 N = Inr (N, st1)
    \<and> oren_all st1 Ns = Inr (Ns, st1)"
proof -
  from assms(1-3) have stored: "st1 = st\<lparr>options := r\<rparr>"
    by (auto simp: oren_def split: option.splits sum.splits)
  from assms(4) have off: "\<not> oren_ok st1"
    by (simp add: oren_ok_iff)
  then have "oren st1 N = Inr (N, st1)" and "oren_all st1 Ns = Inr (Ns, st1)"
    by (simp_all add: oren_degraded oren_all_degraded)
  with stored off show ?thesis
    by simp
qed

theorem disabled_takes_hold_witness:
  "oren_ok (init (Some demo_backend) :: nat oren_state)
   \<and> oren (init (Some demo_backend) :: nat oren_state) (empty_Options\<lparr>disabled := Some True\<rparr>)
       = Inr (empty_Options\<lparr>disabled := Some True\<rparr>, disabled_demo)
   \<and> (disabled_demo :: nat oren_state)
       = (init (Some demo_backend))\<lparr>options := empty_Options\<lparr>disabled := Some True\<rparr>\<rparr>
   \<and> \<not> oren_ok (disabled_demo :: nat oren_state)
   \<and> oren (disabled_demo :: nat oren_state) (empty_Options\<lparr>status := Some 404\<rparr>)
       = Inr (empty_Options\<lparr>status := Some 404\<rparr>, disabled_demo)
   \<and> oren_all (disabled_demo :: nat oren_state)
         [empty_Options\<lparr>status := Some 404\<rparr>, empty_Options\<lparr>disabled := Some False\<rparr>]
       = Inr ([empty_Options\<lparr>status := Some 404\<rparr>, empty_Options\<lparr>disabled := Some False\<rparr>],
              disabled_demo)"
proof -
  have a: "dollar (init (Some demo_backend) :: nat oren_state) \<noteq> None"
    by (simp add: init_def)
  have b: "oren_ok (init (Some demo_backend) :: nat oren_state)"
    by (simp add: init_def empty_Options_def oren_ok_iff)
  have c: "oren (init (Some demo_backend) :: nat oren_state) (empty_Options\<lparr>disabled := Some True\<rparr>)
      = Inr (empty_Options\<lparr>disabled := Some True\<rparr>, disabled_demo)"
    using b
    by (simp add: oren_def init_def demo_backend_def spec_mergeOpts_def merge_def
        empty_Options_def disabled_demo_def)
  have d: "disabled (options (disabled_demo :: nat oren_state)) = Some True"
    by (simp add: disabled_demo_def)
  show ?thesis
    using b c
      disabled_takes_hold [OF a b c d, of "empty_Options\<lparr>status := Some 404\<rparr>"
        "[empty_Options\<lparr>status := Some 404\<rparr>, empty_Options\<lparr>disabled := Some False\<rparr>]"]
    by blast
qed

section \<open>The escaping\<close>

lemma escape_append: "escape (xs @ ys) = escape xs @ escape ys"
  by (induction xs) simp_all

lemma escape_concat_map:
  "escape s =
     concat (map (\<lambda>c. if c = CHR ''&'' then backslash # ''u0026''
                     else if c = CHR ''<'' then backslash # ''u003c''
                     else if c = CHR ''>'' then backslash # ''u003e''
                     else [c]) s)"
  by (induction s) simp_all

lemma escape_no_literal:
  "CHR ''&'' \<notin> set (escape s) \<and> CHR ''<'' \<notin> set (escape s) \<and> CHR ''>'' \<notin> set (escape s)"
  by (induction s) (auto simp: backslash_def)

text \<open>
  C4. For every value with a JSON encoding, the Escaper's output is the JSON text with
  every \<^verbatim>\<open>&\<close> replaced by a backslash and \<^verbatim>\<open>u0026\<close>, every \<^verbatim>\<open><\<close> by a backslash and
  \<^verbatim>\<open>u003c\<close>, every \<^verbatim>\<open>>\<close> by a backslash and \<^verbatim>\<open>u003e\<close>, and every other character in its
  place as it is; the output has no literal \<^verbatim>\<open>&\<close>, \<^verbatim>\<open><\<close> or \<^verbatim>\<open>>\<close>.
\<close>

theorem escaper_replaces_three:
  assumes "stringify v = Some s"
  shows "Escaper_encode stringify v =
      Inr (concat (map (\<lambda>c. if c = CHR ''&'' then backslash # ''u0026''
                           else if c = CHR ''<'' then backslash # ''u003c''
                           else if c = CHR ''>'' then backslash # ''u003e''
                           else [c]) s))
    \<and> (\<exists>t. Escaper_encode stringify v = Inr t
          \<and> CHR ''&'' \<notin> set t \<and> CHR ''<'' \<notin> set t \<and> CHR ''>'' \<notin> set t)"
proof -
  from assms have enc: "Escaper_encode stringify v = Inr (escape s)"
    by (simp add: Escaper_encode_def)
  then have "Escaper_encode stringify v =
      Inr (concat (map (\<lambda>c. if c = CHR ''&'' then backslash # ''u0026''
                           else if c = CHR ''<'' then backslash # ''u003c''
                           else if c = CHR ''>'' then backslash # ''u003e''
                           else [c]) s))"
    using escape_concat_map [of s] by simp
  moreover have "\<exists>t. Escaper_encode stringify v = Inr t
      \<and> CHR ''&'' \<notin> set t \<and> CHR ''<'' \<notin> set t \<and> CHR ''>'' \<notin> set t"
    using enc escape_no_literal [of s] by simp
  ultimately show ?thesis
    by (rule conjI)
qed

theorem escaper_replaces_three_witness:
  "demo_stringify demo_value
     = Some (''{'' @ dquote # ''a'' @ dquote # '':'' @ dquote # ''<b>&c'' @ dquote # ''}'')
   \<and> Escaper_encode demo_stringify demo_value
     = Inr (''{'' @ dquote # ''a'' @ dquote # '':'' @ dquote
            # backslash # ''u003cb'' @ backslash # ''u003e'' @ backslash # ''u0026c''
            @ dquote # ''}'')
   \<and> (\<exists>t. Escaper_encode demo_stringify demo_value = Inr t
         \<and> CHR ''&'' \<notin> set t \<and> CHR ''<'' \<notin> set t \<and> CHR ''>'' \<notin> set t)"
proof -
  have a: "demo_stringify demo_value
      = Some (''{'' @ dquote # ''a'' @ dquote # '':'' @ dquote # ''<b>&c'' @ dquote # ''}'')"
    by (simp add: demo_stringify_def)
  have q: "dquote \<noteq> CHR ''&'' \<and> dquote \<noteq> CHR ''<'' \<and> dquote \<noteq> CHR ''>''"
    by (simp add: dquote_def)
  note th = escaper_replaces_three [of demo_stringify demo_value, OF a]
  from th have b: "Escaper_encode demo_stringify demo_value
      = Inr (''{'' @ dquote # ''a'' @ dquote # '':'' @ dquote
            # backslash # ''u003cb'' @ backslash # ''u003e'' @ backslash # ''u0026c''
            @ dquote # ''}'')"
    by (simp add: q)
  from th have c: "\<exists>t. Escaper_encode demo_stringify demo_value = Inr t
         \<and> CHR ''&'' \<notin> set t \<and> CHR ''<'' \<notin> set t \<and> CHR ''>'' \<notin> set t"
    by (rule conjunct2)
  from a b c show ?thesis
    by (intro conjI)
qed

end
